theory Spec2Isabelle
  imports Complex_Main
begin

section \<open>JavaScript values and strings\<close>

text \<open>
  Messages are modelled as lists of 8-bit characters. \<open>toLowerCase\<close> maps the letters
  A to Z to a to z and leaves every other character alone; \<open>str_includes s sub\<close> is
  \<open>s.includes(sub)\<close>, the test for a contiguous occurrence.
\<close>

definition lower_table :: "(char \<times> char) list" where
  "lower_table = zip ''ABCDEFGHIJKLMNOPQRSTUVWXYZ'' ''abcdefghijklmnopqrstuvwxyz''"

definition toLowerChar :: "char \<Rightarrow> char" where
  "toLowerChar c = (case map_of lower_table c of Some d \<Rightarrow> d | None \<Rightarrow> c)"

definition toLowerCase :: "string \<Rightarrow> string" where
  "toLowerCase s = map toLowerChar s"

fun startsWith :: "string \<Rightarrow> string \<Rightarrow> bool" where
  "startsWith s [] = True"
| "startsWith [] (c # cs) = False"
| "startsWith (x # xs) (c # cs) = (x = c \<and> startsWith xs cs)"

fun str_includes :: "string \<Rightarrow> string \<Rightarrow> bool" where
  "str_includes [] sub = (sub = [])"
| "str_includes (x # xs) sub = (startsWith (x # xs) sub \<or> str_includes xs sub)"

text \<open>Decimal rendering of a number inside a template literal.\<close>

fun string_of_nat :: "nat \<Rightarrow> string" where
  "string_of_nat n =
     (if n < 10 then [''0123456789'' ! n]
      else string_of_nat (n div 10) @ [''0123456789'' ! (n mod 10)])"

section \<open>Request description (engine/middlewareTypes.ts)\<close>

datatype HttpMethod = GET | POST | PUT | DELETE | PATCH | HEAD | OPTIONS

text \<open>
  The fields of \<open>RequestConfig\<close> that the modelled functions read. \<open>timeout\<close> is
  optional in the source; \<open>None\<close> is \<open>undefined\<close>.
\<close>

record RequestConfig =
  url :: string
  cfg_method :: HttpMethod
  timeout :: "nat option"

section \<open>Error taxonomy (engine/errors.ts)\<close>

datatype RequestErrorType = NETWORK | TIMEOUT | HTTP | ABORTED | PARSE | UNKNOWN

text \<open>
  A raw JavaScript error object that is not a \<open>RequestError\<close>: its class (what
  \<open>instanceof\<close> sees; \<open>TypeError\<close> and \<open>DOMException\<close> are both subclasses of
  \<open>Error\<close>), its \<open>name\<close> and its \<open>message\<close>.
\<close>

datatype js_class = ErrorC | TypeErrorC | DOMExceptionC

record js_error =
  cls :: js_class
  ename :: string
  emessage :: string

text \<open>
  \<open>class RequestError extends Error\<close>. The creation timestamp (\<open>Date.now()\<close>) and the
  partial response are left out; \<open>e_timeout\<close> is the extra field of \<open>TimeoutError\<close>.
\<close>

record RequestError =
  e_name :: string
  e_message :: string
  e_type :: RequestErrorType
  e_status :: "nat option"
  e_statusText :: "string option"
  e_config :: "RequestConfig option"
  e_cause :: "js_error option"
  e_timeout :: "nat option"

text \<open>
  Anything that can be thrown or used to reject a promise (TypeScript's \<open>unknown\<close>):
  a \<open>RequestError\<close>, another error object, or a value that is not an error at all.
\<close>

datatype js_value =
    ReqErr RequestError
  | ErrObj js_error
  | JStr string
  | JNum int
  | JBool bool
  | JNull
  | JUndefined
  | JObj nat

text \<open>The truthiness test that \<open>if (x)\<close> applies to a value.\<close>

fun truthy :: "js_value \<Rightarrow> bool" where
  "truthy (ReqErr e) = True"
| "truthy (ErrObj x) = True"
| "truthy (JStr s) = (s \<noteq> [])"
| "truthy (JNum n) = (n \<noteq> 0)"
| "truthy (JBool b) = b"
| "truthy JNull = False"
| "truthy JUndefined = False"
| "truthy (JObj a) = True"

text \<open>The constructors of the error classes.\<close>

definition newRequestError ::
  "string \<Rightarrow> RequestErrorType \<Rightarrow> nat option \<Rightarrow> string option \<Rightarrow> RequestConfig option
     \<Rightarrow> js_error option \<Rightarrow> RequestError" where
  "newRequestError msg ty st stText config cause' =
     \<lparr>e_name = ''RequestError'', e_message = msg, e_type = ty, e_status = st,
      e_statusText = stText, e_config = config, e_cause = cause', e_timeout = None\<rparr>"

definition NetworkError :: "string \<Rightarrow> RequestConfig option \<Rightarrow> js_error option \<Rightarrow> RequestError" where
  "NetworkError msg config cause' =
     (newRequestError msg NETWORK None None config cause')\<lparr>e_name := ''NetworkError''\<rparr>"

definition TimeoutError :: "string \<Rightarrow> nat \<Rightarrow> RequestConfig option \<Rightarrow> RequestError" where
  "TimeoutError msg t config =
     (newRequestError msg TIMEOUT None None config None)
       \<lparr>e_name := ''TimeoutError'', e_timeout := Some t\<rparr>"

definition HttpError :: "string \<Rightarrow> nat \<Rightarrow> string \<Rightarrow> RequestConfig option \<Rightarrow> RequestError" where
  "HttpError msg st stText config =
     (newRequestError msg HTTP (Some st) (Some stText) config None)\<lparr>e_name := ''HttpError''\<rparr>"

definition AbortError :: "string \<Rightarrow> RequestConfig option \<Rightarrow> RequestError" where
  "AbortError msg config =
     (newRequestError msg ABORTED None None config None)\<lparr>e_name := ''AbortError''\<rparr>"

definition isNetworkError :: "RequestError \<Rightarrow> bool" where
  "isNetworkError e = (e_type e = NETWORK)"

definition isTimeoutError :: "RequestError \<Rightarrow> bool" where
  "isTimeoutError e = (e_type e = TIMEOUT)"

definition isHttpError :: "RequestError \<Rightarrow> bool" where
  "isHttpError e = (e_type e = HTTP)"

definition isAbortedError :: "RequestError \<Rightarrow> bool" where
  "isAbortedError e = (e_type e = ABORTED)"

text \<open>\<open>this.status\<close> used as a condition: defined and not zero.\<close>

definition status_truthy :: "nat option \<Rightarrow> bool" where
  "status_truthy st = (case st of None \<Rightarrow> False | Some n \<Rightarrow> n \<noteq> 0)"

definition isRetryable :: "RequestError \<Rightarrow> bool" where
  "isRetryable e =
     (if e_type e = NETWORK then True
      else if e_type e = TIMEOUT then True
      else if e_type e = HTTP \<and> status_truthy (e_status e) \<and> 500 \<le> the (e_status e) then True
      else False)"

definition isRequestError :: "js_value \<Rightarrow> bool" where
  "isRequestError error = (case error of ReqErr e \<Rightarrow> True | _ \<Rightarrow> False)"

definition isRetryableError :: "js_value \<Rightarrow> bool" where
  "isRetryableError error = (case error of ReqErr e \<Rightarrow> isRetryable e | _ \<Rightarrow> False)"

definition createHttpError :: "nat \<Rightarrow> string \<Rightarrow> RequestConfig option \<Rightarrow> RequestError" where
  "createHttpError st stText config =
     HttpError (''HTTP Error: '' @ string_of_nat st @ '' '' @ stText) st stText config"

text \<open>\<open>config?.timeout || 0\<close>\<close>

definition timeout_or_0 :: "RequestConfig option \<Rightarrow> nat" where
  "timeout_or_0 config =
     (case config of None \<Rightarrow> 0
      | Some c \<Rightarrow> (case timeout c of None \<Rightarrow> 0 | Some t \<Rightarrow> if t \<noteq> 0 then t else 0))"

text \<open>
  \<open>normalizeError\<close>, branch by branch in the order of the source: an already typed error
  is returned as it is; a \<open>DOMException\<close> named \<open>AbortError\<close>; a \<open>TypeError\<close> whose
  message contains \<open>fetch\<close> or \<open>network\<close> (compared without lower-casing); then, for
  every error object, the keywords \<open>timeout\<close>, \<open>abort\<close> (or the name \<open>AbortError\<close>) and
  the network keywords, each looked up in the lower-cased message; then the fallback.
\<close>

definition normalizeError :: "js_value \<Rightarrow> RequestConfig option \<Rightarrow> RequestError" where
  "normalizeError error config =
     (case error of
        ReqErr e \<Rightarrow> e
      | ErrObj x \<Rightarrow>
          if cls x = DOMExceptionC \<and> ename x = ''AbortError''
            then AbortError ''Request aborted'' config
          else if cls x = TypeErrorC \<and>
                  (str_includes (emessage x) ''fetch'' \<or> str_includes (emessage x) ''network'')
            then NetworkError (emessage x) config (Some x)
          else if str_includes (toLowerCase (emessage x)) ''timeout''
            then TimeoutError (emessage x) (timeout_or_0 config) config
          else if ename x = ''AbortError'' \<or> str_includes (toLowerCase (emessage x)) ''abort''
            then AbortError (emessage x) config
          else if str_includes (toLowerCase (emessage x)) ''network'' \<or>
                  str_includes (toLowerCase (emessage x)) ''failed to fetch'' \<or>
                  str_includes (toLowerCase (emessage x)) ''econnrefused''
            then NetworkError (emessage x) config (Some x)
          else newRequestError (emessage x) UNKNOWN None None config (Some x)
      | JStr s \<Rightarrow> newRequestError s UNKNOWN None None config None
      | _ \<Rightarrow> newRequestError ''Unknown error'' UNKNOWN None None config None)"

section \<open>Retry (middlewares/retry.ts)\<close>

datatype Backoff = linear | exponential

text \<open>
  \<open>calculateDelay\<close>. Delays are JavaScript numbers, modelled as real numbers (no rounding);
  the last argument is the value that \<open>Math.random()\<close> returns in this call, a number in
  the interval from 0 (included) to 1 (excluded).
\<close>

definition calculateDelay :: "nat \<Rightarrow> Backoff \<Rightarrow> real \<Rightarrow> real \<Rightarrow> real \<Rightarrow> real" where
  "calculateDelay attempt bo baseDelay maxDelay rnd =
     (let delay =
        (if bo = exponential
         then (let d = baseDelay * 2 ^ attempt in d + d * rnd * 0.25)
         else baseDelay * (real attempt + 1))
      in min delay maxDelay)"

definition DEFAULT_RETRYABLE_STATUS_CODES :: "nat list" where
  "DEFAULT_RETRYABLE_STATUS_CODES = [408, 429, 500, 502, 503, 504]"

definition checkShouldRetry ::
  "js_value \<Rightarrow> nat \<Rightarrow> nat list \<Rightarrow> (js_value \<Rightarrow> nat \<Rightarrow> bool) option \<Rightarrow> bool" where
  "checkShouldRetry error attempt retryableStatusCodes customShouldRetry =
     (case customShouldRetry of
        Some f \<Rightarrow> f error attempt
      | None \<Rightarrow>
          (case error of
             ReqErr e \<Rightarrow>
               if isAbortedError e then False
               else if isHttpError e \<and> status_truthy (e_status e)
                 then the (e_status e) \<in> set retryableStatusCodes
               else isRetryable e
           | _ \<Rightarrow> isRetryableError error))"

text \<open>
  \<open>RetryMiddlewareOptions\<close>: every field is optional and \<open>None\<close> is \<open>undefined\<close>, which
  the destructuring in \<open>createRetryAdapter\<close> replaces by the default. \<open>maxRetries\<close> is an
  integer. \<open>onRetry\<close> returns \<open>Some ex\<close> when the callback throws \<open>ex\<close>.
\<close>

record RetryMiddlewareOptions =
  opt_maxRetries :: "int option"
  opt_backoff :: "Backoff option"
  opt_baseDelay :: "real option"
  opt_maxDelay :: "real option"
  opt_retryableStatusCodes :: "nat list option"
  opt_shouldRetry :: "(js_value \<Rightarrow> nat \<Rightarrow> bool) option"
  opt_onRetry :: "(js_value \<Rightarrow> nat \<Rightarrow> js_value option) option"

definition maxRetries_of :: "RetryMiddlewareOptions \<Rightarrow> int" where
  "maxRetries_of opts = (case opt_maxRetries opts of None \<Rightarrow> 3 | Some n \<Rightarrow> n)"

definition backoff_of :: "RetryMiddlewareOptions \<Rightarrow> Backoff" where
  "backoff_of opts = (case opt_backoff opts of None \<Rightarrow> exponential | Some b \<Rightarrow> b)"

definition baseDelay_of :: "RetryMiddlewareOptions \<Rightarrow> real" where
  "baseDelay_of opts = (case opt_baseDelay opts of None \<Rightarrow> 1000 | Some d \<Rightarrow> d)"

definition maxDelay_of :: "RetryMiddlewareOptions \<Rightarrow> real" where
  "maxDelay_of opts = (case opt_maxDelay opts of None \<Rightarrow> 30000 | Some d \<Rightarrow> d)"

definition retryableStatusCodes_of :: "RetryMiddlewareOptions \<Rightarrow> nat list" where
  "retryableStatusCodes_of opts =
     (case opt_retryableStatusCodes opts of
        None \<Rightarrow> DEFAULT_RETRYABLE_STATUS_CODES | Some cs \<Rightarrow> cs)"

text \<open>\<open>if (onRetry) { onRetry(error, attempt + 1); }\<close>: the exception it throws, if any.\<close>

definition call_onRetry :: "RetryMiddlewareOptions \<Rightarrow> js_value \<Rightarrow> nat \<Rightarrow> js_value option" where
  "call_onRetry opts error n = (case opt_onRetry opts of None \<Rightarrow> None | Some f \<Rightarrow> f error n)"

text \<open>
  What one call of the retrying adapter did: how often it called the wrapped adapter, the
  delays it slept, in order, and the \<open>onRetry\<close> notifications it made.
\<close>

record retry_trace =
  calls :: nat
  sleeps :: "real list"
  notified :: "(js_value \<times> nat) list"

definition no_trace :: retry_trace where
  "no_trace = \<lparr>calls = 0, sleeps = [], notified = []\<rparr>"

text \<open>
  The wrapped adapter is a state transformer: given the request and the state of the world
  it returns the response (\<open>Inr\<close>) or the thrown value (\<open>Inl\<close>), and the new state.
  \<open>attempt_loop\<close> is the \<open>for\<close> loop of \<open>createRetryAdapter\<close> from a given value of
  \<open>attempt\<close>; \<open>rnd i\<close> is what \<open>Math.random()\<close> returns while attempt \<open>i\<close> is handled.
\<close>

function attempt_loop ::
  "(RequestConfig \<Rightarrow> 's \<Rightarrow> (js_value + 'r) \<times> 's) \<Rightarrow> RetryMiddlewareOptions \<Rightarrow> (nat \<Rightarrow> real)
     \<Rightarrow> RequestConfig \<Rightarrow> nat \<Rightarrow> js_value \<Rightarrow> 's \<Rightarrow> retry_trace
     \<Rightarrow> (js_value + 'r) \<times> 's \<times> retry_trace" where
  "attempt_loop adapter opts rnd config attempt lastError s tr =
     (if int attempt \<le> maxRetries_of opts then
        (case adapter config s of
           (Inr response, s') \<Rightarrow> (Inr response, s', tr\<lparr>calls := calls tr + 1\<rparr>)
         | (Inl error, s') \<Rightarrow>
             if int attempt = maxRetries_of opts
               then (Inl error, s', tr\<lparr>calls := calls tr + 1\<rparr>)
             else if \<not> checkShouldRetry error attempt (retryableStatusCodes_of opts)
                        (opt_shouldRetry opts)
               then (Inl error, s', tr\<lparr>calls := calls tr + 1\<rparr>)
             else
               (case call_onRetry opts error (attempt + 1) of
                  Some ex \<Rightarrow>
                    (Inl ex, s', tr\<lparr>calls := calls tr + 1,
                                     notified := notified tr @ [(error, attempt + 1)]\<rparr>)
                | None \<Rightarrow>
                    attempt_loop adapter opts rnd config (attempt + 1) error s'
                      (tr\<lparr>calls := calls tr + 1,
                          sleeps := sleeps tr @
                            [calculateDelay attempt (backoff_of opts) (baseDelay_of opts)
                               (maxDelay_of opts) (rnd attempt)],
                          notified := notified tr @
                            (case opt_onRetry opts of None \<Rightarrow> []
                             | Some f \<Rightarrow> [(error, attempt + 1)])\<rparr>)))
      else (Inl lastError, s, tr))"
  by pat_completeness auto
termination
  by (relation "measure (\<lambda>(adapter, opts, rnd, config, attempt, lastError, s, tr).
                  nat (maxRetries_of opts + 1 - int attempt))") auto

declare attempt_loop.simps [simp del]

definition createRetryAdapter ::
  "(RequestConfig \<Rightarrow> 's \<Rightarrow> (js_value + 'r) \<times> 's) \<Rightarrow> RetryMiddlewareOptions \<Rightarrow> (nat \<Rightarrow> real)
     \<Rightarrow> RequestConfig \<Rightarrow> 's \<Rightarrow> (js_value + 'r) \<times> 's \<times> retry_trace" where
  "createRetryAdapter adapter options rnd config s =
     attempt_loop adapter options rnd config 0 JUndefined s no_trace"

subsection \<open>The middleware of retry.ts\<close>

text \<open>
  \<open>HttpContext\<close>: the request, the optional response and error, and the shared state, a
  map from property names to values. The values the retry middleware stores are the
  configuration object and numbers.
\<close>

datatype state_value =
    SRetryConfig int Backoff real real "nat list"
  | SNum real
  | SValue js_value

record 'r HttpContext =
  ctx_request :: RequestConfig
  ctx_response :: "'r option"
  ctx_error :: "js_value option"
  ctx_state :: "string \<rightharpoonup> state_value"

text \<open>
  The continuation \<open>next\<close> takes the context and returns it updated, with \<open>Some e\<close> when
  the rest of the chain throws \<open>e\<close>. The result of the middleware is what it throws, if
  anything, the context it leaves, the invocations of \<open>next\<close> (the context each one
  received, in order) and the delays it slept.
  \<open>executeWithRetry\<close> is called once and does not call itself, so there is no loop.
\<close>

definition createRetryMiddleware ::
  "RetryMiddlewareOptions \<Rightarrow> (nat \<Rightarrow> real) \<Rightarrow> ('r HttpContext \<Rightarrow> js_value option \<times> 'r HttpContext)
     \<Rightarrow> 'r HttpContext
     \<Rightarrow> js_value option \<times> 'r HttpContext \<times> 'r HttpContext list \<times> real list" where
  "createRetryMiddleware opts rnd next ctx =
     (let ctx1 = ctx\<lparr>ctx_state := (ctx_state ctx)(''retryConfig'' \<mapsto>
                   SRetryConfig (maxRetries_of opts) (backoff_of opts) (baseDelay_of opts)
                     (maxDelay_of opts) (retryableStatusCodes_of opts))\<rparr>;
          attempt = (0::nat)
      in case next ctx1 of
           (None, ctx2) \<Rightarrow> (None, ctx2, [ctx1], [])
         | (Some error, ctx2) \<Rightarrow>
             if maxRetries_of opts \<le> int attempt then (Some error, ctx2, [ctx1], [])
             else if \<not> checkShouldRetry error attempt (retryableStatusCodes_of opts)
                        (opt_shouldRetry opts)
               then (Some error, ctx2, [ctx1], [])
             else
               (let delay = calculateDelay attempt (backoff_of opts) (baseDelay_of opts)
                              (maxDelay_of opts) (rnd attempt)
                in case call_onRetry opts error (attempt + 1) of
                     Some ex \<Rightarrow> (Some ex, ctx2, [ctx1], [])
                   | None \<Rightarrow>
                       (Some error,
                        ctx2\<lparr>ctx_state := (ctx_state ctx2)
                                (''retryAttempt'' \<mapsto> SNum (real attempt + 1),
                                 ''retryDelay'' \<mapsto> SNum delay),
                             ctx_response := None, ctx_error := None\<rparr>,
                        [ctx1], [delay])))"

subsection \<open>The middleware of retryMiddleware.ts\<close>

text \<open>
  The other \<open>createRetryMiddleware\<close>, the one that engine/index.ts exports. Its options
  are \<open>retries\<close> (default 2) and \<open>delay\<close> (default 200). The loop calls \<open>next\<close>
  again after a failure, and also after a call that returned with \<open>ctx.error\<close> set; the
  result has the same shape as above.
\<close>

record RetryOptions =
  ro_retries :: "int option"
  ro_delay :: "real option"

definition retries_of :: "RetryOptions \<Rightarrow> int" where
  "retries_of options = (case ro_retries options of None \<Rightarrow> 2 | Some n \<Rightarrow> n)"

definition delay_of :: "RetryOptions \<Rightarrow> real" where
  "delay_of options = (case ro_delay options of None \<Rightarrow> 200 | Some d \<Rightarrow> d)"

function createRetryMiddleware2_loop ::
  "RetryOptions \<Rightarrow> ('r HttpContext \<Rightarrow> js_value option \<times> 'r HttpContext) \<Rightarrow> nat \<Rightarrow> js_value
     \<Rightarrow> 'r HttpContext \<Rightarrow> 'r HttpContext list \<Rightarrow> real list
     \<Rightarrow> js_value option \<times> 'r HttpContext \<times> 'r HttpContext list \<times> real list" where
  "createRetryMiddleware2_loop options next i lastError ctx invoked slept =
     (if int i \<le> retries_of options then
        (case next ctx of
           (None, ctx') \<Rightarrow>
             if \<not> (case ctx_error ctx' of None \<Rightarrow> False | Some v \<Rightarrow> truthy v)
               then (None, ctx', invoked @ [ctx], slept)
             else createRetryMiddleware2_loop options next (i + 1) lastError ctx'
                    (invoked @ [ctx]) slept
         | (Some err, ctx') \<Rightarrow>
             createRetryMiddleware2_loop options next (i + 1) err ctx' (invoked @ [ctx])
               (if int i < retries_of options \<and> 0 < delay_of options
                then slept @ [delay_of options] else slept))
      else ((if truthy lastError then Some lastError else None), ctx, invoked, slept))"
  by pat_completeness auto
termination
  by (relation "measure (\<lambda>(options, next, i, lastError, ctx, invoked, slept).
                  nat (retries_of options + 1 - int i))") auto

declare createRetryMiddleware2_loop.simps [simp del]

definition createRetryMiddleware2 ::
  "RetryOptions \<Rightarrow> ('r HttpContext \<Rightarrow> js_value option \<times> 'r HttpContext) \<Rightarrow> 'r HttpContext
     \<Rightarrow> js_value option \<times> 'r HttpContext \<times> 'r HttpContext list \<times> real list" where
  "createRetryMiddleware2 options next ctx =
     createRetryMiddleware2_loop options next 0 JUndefined ctx [] []"

section \<open>The streaming bridge (adapters/eventSource.ts)\<close>

text \<open>
  One event of the stream, \<open>EventSourceMessage\<close>.
\<close>

record EventSourceMessage =
  data :: string
  msg_type :: "string option"
  msg_id :: "string option"

text \<open>
  \<open>IteratorResult\<close>: \<open>Value v\<close> is \<open>{ value: v, done: false }\<close> and \<open>Done\<close> is the
  completion marker \<open>{ value: undefined, done: true }\<close>. A promise returned by
  \<open>next()\<close> is resolved, rejected or still pending.
\<close>

datatype 'a IteratorResult = Value 'a | Done

datatype 'a settlement = Resolved "'a IteratorResult" | Rejected js_value

text \<open>
  The variables closed over by \<open>createAsyncQueue\<close>. A pull is identified by a number
  chosen by the caller; \<open>resolveNext\<close> and \<open>rejectNext\<close> hold the pull whose promise
  they settle. \<open>doneSettled\<close> is true once \<open>settleDone\<close> has resolved the \<open>done\<close>
  promise and cleared \<open>doneResolve\<close>.
\<close>

record 'a AsyncQueue =
  isClosed :: bool
  failure :: js_value
  vals :: "'a list"
  resolveNext :: "nat option"
  rejectNext :: "nat option"
  doneSettled :: bool

definition createAsyncQueue :: "'a AsyncQueue" where
  "createAsyncQueue =
     \<lparr>isClosed = False, failure = JUndefined, vals = [], resolveNext = None,
      rejectNext = None, doneSettled = False\<rparr>"

definition settleDone :: "'a AsyncQueue \<Rightarrow> 'a AsyncQueue" where
  "settleDone q = (if \<not> doneSettled q then q\<lparr>doneSettled := True\<rparr> else q)"

text \<open>
  Every operation returns the promises it settles, as pairs of a pull and its outcome, and
  the new queue. \<open>next p\<close> settles its own promise at once or stores its resolvers.
\<close>

definition queue_next :: "nat \<Rightarrow> 'a AsyncQueue \<Rightarrow> (nat \<times> 'a settlement) list \<times> 'a AsyncQueue" where
  "queue_next p q =
     (if truthy (failure q) then ([(p, Rejected (failure q))], q)
      else (case vals q of
              v # rest \<Rightarrow> ([(p, Resolved (Value v))], q\<lparr>vals := rest\<rparr>)
            | [] \<Rightarrow>
                if isClosed q then ([(p, Resolved Done)], settleDone q)
                else ([], q\<lparr>resolveNext := Some p, rejectNext := Some p\<rparr>)))"

definition queue_push :: "'a \<Rightarrow> 'a AsyncQueue \<Rightarrow> (nat \<times> 'a settlement) list \<times> 'a AsyncQueue" where
  "queue_push v q =
     (if isClosed q \<or> truthy (failure q) then ([], q)
      else (case resolveNext q of
              Some p \<Rightarrow> ([(p, Resolved (Value v))], q\<lparr>resolveNext := None, rejectNext := None\<rparr>)
            | None \<Rightarrow> ([], q\<lparr>vals := vals q @ [v]\<rparr>)))"

definition queue_close :: "'a AsyncQueue \<Rightarrow> (nat \<times> 'a settlement) list \<times> 'a AsyncQueue" where
  "queue_close q =
     (if isClosed q then ([], q)
      else (case resolveNext q of
              Some p \<Rightarrow>
                ([(p, Resolved Done)],
                 settleDone (q\<lparr>isClosed := True, resolveNext := None, rejectNext := None\<rparr>))
            | None \<Rightarrow> ([], settleDone (q\<lparr>isClosed := True\<rparr>))))"

definition queue_fail :: "js_value \<Rightarrow> 'a AsyncQueue \<Rightarrow> (nat \<times> 'a settlement) list \<times> 'a AsyncQueue" where
  "queue_fail err q =
     (if truthy (failure q) \<or> isClosed q then ([], q)
      else (case rejectNext q of
              Some p \<Rightarrow>
                ([(p, Rejected err)],
                 settleDone (q\<lparr>failure := err, resolveNext := None, rejectNext := None\<rparr>))
            | None \<Rightarrow> ([], settleDone (q\<lparr>failure := err\<rparr>))))"

text \<open>A run of the queue: the operations in the order they happen.\<close>

datatype 'a queue_op = Push 'a | Close | Fail js_value | Pull nat

fun queue_step :: "'a queue_op \<Rightarrow> 'a AsyncQueue \<Rightarrow> (nat \<times> 'a settlement) list \<times> 'a AsyncQueue" where
  "queue_step (Push v) q = queue_push v q"
| "queue_step Close q = queue_close q"
| "queue_step (Fail err) q = queue_fail err q"
| "queue_step (Pull p) q = queue_next p q"

fun queue_run :: "'a AsyncQueue \<Rightarrow> 'a queue_op list \<Rightarrow> (nat \<times> 'a settlement) list \<times> 'a AsyncQueue" where
  "queue_run q [] = ([], q)"
| "queue_run q (x # xs) =
     (case queue_step x q of
        (out, q') \<Rightarrow> (case queue_run q' xs of (outs, q'') \<Rightarrow> (out @ outs, q'')))"

subsection \<open>The adapter\<close>

text \<open>
  The response that the source hands to \<open>onopen\<close>: \<open>res_text\<close> is the result of
  \<open>response.text().catch(() => undefined)\<close>, and \<open>response.ok\<close> holds for the statuses
  200 to 299.
\<close>

record Response =
  res_status :: nat
  res_statusText :: string
  res_text :: "string option"

definition ok :: "Response \<Rightarrow> bool" where
  "ok response = (200 \<le> res_status response \<and> res_status response \<le> 299)"

text \<open>
  \<open>ResponseData\<close> as the outer promise receives it; its \<open>data\<close> is the session, which
  in the model is the queue of the adapter state below.
\<close>

record ResponseData =
  rd_status :: nat
  rd_statusText :: string
  rd_config :: RequestConfig

datatype outer_promise = OPending | OResolved ResponseData | ORejected js_value

text \<open>What a call of \<open>request\<close> does to the outside: sessions built, connections opened.\<close>

datatype effect = NewSession | Connect HttpMethod

text \<open>
  The state of one call of \<open>request\<close> of the current adapter: the queue behind
  \<open>session.stream\<close>, the flag \<open>settled\<close>, the promise returned to the caller,
  \<open>runDone\<close> (the inner \<open>done\<close> promise has been resolved by the \<open>finally\<close> block)
  and the effects so far. The listener callbacks of the adapter configuration are absent,
  as in the default configuration; the cancellation wiring (abort controller, timeout
  timer) acts on the source only and is not part of the state.
\<close>

record es_state =
  queue :: "EventSourceMessage AsyncQueue"
  settled :: bool
  outer :: outer_promise
  runDone :: bool
  effects :: "effect list"


text \<open>
  \<open>request\<close> up to the point where \<open>run()\<close> has called \<open>fetchEventSource\<close> with the
  method of the request: the queue and the session exist, nothing is settled.
\<close>

definition es_request :: "RequestConfig \<Rightarrow> es_state" where
  "es_request requestConfig =
     \<lparr>queue = createAsyncQueue, settled = False, outer = OPending, runDone = False,
      effects = [NewSession, Connect (cfg_method requestConfig)]\<rparr>"

text \<open>
  The error built in \<open>onopen\<close> for a response that is not ok: a plain \<open>Error\<close>. Its
  extra properties \<open>status\<close> and \<open>body\<close> are not read by any modelled function.
\<close>

definition onopen_error :: "Response \<Rightarrow> js_value" where
  "onopen_error response =
     ErrObj \<lparr>cls = ErrorC, ename = ''Error'',
             emessage = ''HTTP Error: '' @ string_of_nat (res_status response) @ '' '' @
               res_statusText response @
               (case res_text response of
                  None \<Rightarrow> []
                | Some t \<Rightarrow> if t \<noteq> [] then '' - '' @ t else [])\<rparr>"

text \<open>
  The handlers passed to \<open>fetchEventSource\<close>, and the two ways its promise ends. Each
  returns the pulls it settles, the new state and the value it throws, if any. A handler
  is one step of the model; \<open>onopen\<close> awaits the body text of a response that is not ok
  before it fails the queue, and the step stands for the handler run to its end.
\<close>

definition es_onopen ::
  "RequestConfig \<Rightarrow> Response \<Rightarrow> es_state
     \<Rightarrow> (nat \<times> EventSourceMessage settlement) list \<times> es_state \<times> js_value option" where
  "es_onopen requestConfig response st =
     (if \<not> ok response then
        (let err = onopen_error response in
         case queue_fail err (queue st) of
           (out, q') \<Rightarrow>
             (out,
              (if \<not> settled st then st\<lparr>queue := q', settled := True, outer := ORejected err\<rparr>
               else st\<lparr>queue := q'\<rparr>),
              Some err))
      else
        ([],
         (if \<not> settled st
          then st\<lparr>settled := True,
                  outer := OResolved \<lparr>rd_status = res_status response,
                                      rd_statusText = res_statusText response,
                                      rd_config = requestConfig\<rparr>\<rparr>
          else st),
         None))"

definition es_onmessage ::
  "EventSourceMessage \<Rightarrow> es_state
     \<Rightarrow> (nat \<times> EventSourceMessage settlement) list \<times> es_state \<times> js_value option" where
  "es_onmessage msg st =
     (case queue_push msg (queue st) of (out, q') \<Rightarrow> (out, st\<lparr>queue := q'\<rparr>, None))"

definition es_onerror ::
  "js_value \<Rightarrow> es_state
     \<Rightarrow> (nat \<times> EventSourceMessage settlement) list \<times> es_state \<times> js_value option" where
  "es_onerror error st =
     (case queue_fail error (queue st) of (out, q') \<Rightarrow> (out, st\<lparr>queue := q'\<rparr>, Some error))"

definition es_onclose ::
  "es_state \<Rightarrow> (nat \<times> EventSourceMessage settlement) list \<times> es_state \<times> js_value option" where
  "es_onclose st =
     (case queue_close (queue st) of (out, q') \<Rightarrow> (out, st\<lparr>queue := q'\<rparr>, None))"

text \<open>The \<open>finally\<close> block of \<open>run\<close>.\<close>

definition es_finally ::
  "es_state \<Rightarrow> (nat \<times> EventSourceMessage settlement) list \<times> es_state" where
  "es_finally st =
     (case queue_close (queue st) of (out, q') \<Rightarrow> (out, st\<lparr>queue := q', runDone := True\<rparr>))"

text \<open>\<open>fetchEventSource\<close> resolved: only the \<open>finally\<close> block runs.\<close>

definition es_returned ::
  "es_state \<Rightarrow> (nat \<times> EventSourceMessage settlement) list \<times> es_state \<times> js_value option" where
  "es_returned st = (case es_finally st of (out, st') \<Rightarrow> (out, st', None))"

text \<open>\<open>fetchEventSource\<close> rejected with \<open>err\<close>: the \<open>catch\<close> block, then \<open>finally\<close>.\<close>

definition es_failed ::
  "js_value \<Rightarrow> es_state
     \<Rightarrow> (nat \<times> EventSourceMessage settlement) list \<times> es_state \<times> js_value option" where
  "es_failed err st =
     (let st1 = (if \<not> settled st then st\<lparr>settled := True, outer := ORejected err\<rparr> else st)
      in case queue_fail err (queue st1) of
           (out1, q') \<Rightarrow>
             (case es_finally (st1\<lparr>queue := q'\<rparr>) of
                (out2, st2) \<Rightarrow> (out1 @ out2, st2, None)))"

text \<open>
  What happens to one call, in order: the callbacks the source makes, the end of
  \<open>fetchEventSource\<close>, and the pulls of the consumer on \<open>session.stream\<close>.
\<close>

datatype es_event =
    OnOpen Response
  | OnMessage EventSourceMessage
  | OnError js_value
  | OnClose
  | Returned
  | Failed js_value
  | SessionPull nat

fun es_step ::
  "RequestConfig \<Rightarrow> es_event \<Rightarrow> es_state
     \<Rightarrow> (nat \<times> EventSourceMessage settlement) list \<times> es_state" where
  "es_step c (OnOpen response) st = (case es_onopen c response st of (out, st', _) \<Rightarrow> (out, st'))"
| "es_step c (OnMessage msg) st = (case es_onmessage msg st of (out, st', _) \<Rightarrow> (out, st'))"
| "es_step c (OnError error) st = (case es_onerror error st of (out, st', _) \<Rightarrow> (out, st'))"
| "es_step c OnClose st = (case es_onclose st of (out, st', _) \<Rightarrow> (out, st'))"
| "es_step c Returned st = (case es_returned st of (out, st', _) \<Rightarrow> (out, st'))"
| "es_step c (Failed err) st = (case es_failed err st of (out, st', _) \<Rightarrow> (out, st'))"
| "es_step c (SessionPull p) st =
     (case queue_next p (queue st) of (out, q') \<Rightarrow> (out, st\<lparr>queue := q'\<rparr>))"

fun es_run ::
  "RequestConfig \<Rightarrow> es_state \<Rightarrow> es_event list
     \<Rightarrow> (nat \<times> EventSourceMessage settlement) list \<times> es_state" where
  "es_run c st [] = ([], st)"
| "es_run c st (ev # evs) =
     (case es_step c ev st of
        (out, st') \<Rightarrow> (case es_run c st' evs of (outs, st'') \<Rightarrow> (out @ outs, st'')))"

text \<open>
  The older adapter of the same file: \<open>request\<close> up to the call of \<open>fetchEventSource\<close>.
  It throws for every method but GET before it connects, and it builds no session at all;
  the result is the promise returned to the caller and the effects.
\<close>

definition legacy_request :: "RequestConfig \<Rightarrow> outer_promise \<times> effect list" where
  "legacy_request requestConfig =
     (if cfg_method requestConfig \<noteq> GET
      then (ORejected (ReqErr (newRequestError ''EventSource adapter only supports GET requests''
                                 UNKNOWN None None (Some requestConfig) None)), [])
      else (OPending, [Connect GET]))"

section \<open>The client (client/httpClient.ts)\<close>

text \<open>
  \<open>finalHandler\<close>, given what \<open>adapter.request(ctx.request)\<close> produced: the response is
  stored, a failure is normalised, stored and thrown.
\<close>

definition finalHandler ::
  "(js_value + 'r) \<Rightarrow> 'r HttpContext \<Rightarrow> js_value option \<times> 'r HttpContext" where
  "finalHandler outcome ctx =
     (case outcome of
        Inr response \<Rightarrow> (None, ctx\<lparr>ctx_response := Some response\<rparr>)
      | Inl error \<Rightarrow>
          (let e = ReqErr (normalizeError error (Some (ctx_request ctx)))
           in (Some e, ctx\<lparr>ctx_error := Some e\<rparr>)))"

section \<open>Notions used in the statements\<close>

subsection \<open>The priority order of normalisation\<close>

text \<open>
  The conditions that \<open>normalizeError\<close> tests on an error object, one name each, and the
  order in which the first one that holds decides the kind.
\<close>

definition is_abort_signal_exception :: "js_error \<Rightarrow> bool" where
  "is_abort_signal_exception x = (cls x = DOMExceptionC \<and> ename x = ''AbortError'')"

definition is_network_type_error :: "js_error \<Rightarrow> bool" where
  "is_network_type_error x =
     (cls x = TypeErrorC \<and>
      (str_includes (emessage x) ''fetch'' \<or> str_includes (emessage x) ''network''))"

definition has_timeout_keyword :: "js_error \<Rightarrow> bool" where
  "has_timeout_keyword x = str_includes (toLowerCase (emessage x)) ''timeout''"

definition has_abort_keyword :: "js_error \<Rightarrow> bool" where
  "has_abort_keyword x =
     (ename x = ''AbortError'' \<or> str_includes (toLowerCase (emessage x)) ''abort'')"

definition has_network_keyword :: "js_error \<Rightarrow> bool" where
  "has_network_keyword x =
     (str_includes (toLowerCase (emessage x)) ''network'' \<or>
      str_includes (toLowerCase (emessage x)) ''failed to fetch'' \<or>
      str_includes (toLowerCase (emessage x)) ''econnrefused'')"

definition priority_order :: "((js_error \<Rightarrow> bool) \<times> RequestErrorType) list" where
  "priority_order =
     [(is_abort_signal_exception, ABORTED),
      (is_network_type_error, NETWORK),
      (has_timeout_keyword, TIMEOUT),
      (has_abort_keyword, ABORTED),
      (has_network_keyword, NETWORK)]"

fun first_match :: "((js_error \<Rightarrow> bool) \<times> RequestErrorType) list \<Rightarrow> js_error \<Rightarrow> RequestErrorType" where
  "first_match [] x = UNKNOWN"
| "first_match ((p, k) # rules) x = (if p x then k else first_match rules x)"

definition taxonomy_kind :: "js_value \<Rightarrow> RequestErrorType" where
  "taxonomy_kind error =
     (case error of
        ReqErr e \<Rightarrow> e_type e
      | ErrObj x \<Rightarrow> first_match priority_order x
      | _ \<Rightarrow> UNKNOWN)"

subsection \<open>Runs of the queue and of a call\<close>

text \<open>
  The pulls of a run, the operations of the source, and the runs in which no pull is made
  while another waits in the resolver slot.
\<close>

fun pulls :: "'a queue_op list \<Rightarrow> nat list" where
  "pulls [] = []"
| "pulls (Pull p # xs) = p # pulls xs"
| "pulls (x # xs) = pulls xs"

fun is_pull :: "'a queue_op \<Rightarrow> bool" where
  "is_pull (Pull p) = True"
| "is_pull x = False"




text \<open>The same notions for a call of the adapter.\<close>

fun session_pulls :: "es_event list \<Rightarrow> nat list" where
  "session_pulls [] = []"
| "session_pulls (SessionPull p # evs) = p # session_pulls evs"
| "session_pulls (ev # evs) = session_pulls evs"






subsection \<open>Notions used in the proofs about the queue\<close>

text \<open>
  The pull that waits in the resolver slot, if any, and the states in which the queue is
  still open: not closed, no failure recorded, both resolvers set or cleared together, and
  nothing buffered while a pull waits.
\<close>

definition pending :: "'a AsyncQueue \<Rightarrow> nat list" where
  "pending q = (case resolveNext q of None \<Rightarrow> [] | Some p \<Rightarrow> [p])"

definition open_queue :: "'a AsyncQueue \<Rightarrow> bool" where
  "open_queue q =
     (\<not> isClosed q \<and> \<not> truthy (failure q) \<and> rejectNext q = resolveNext q \<and>
      (resolveNext q = None \<or> vals q = []))"

text \<open>The queue operations that one event of a call of the adapter performs.\<close>

fun qop_of :: "es_event \<Rightarrow> EventSourceMessage queue_op list" where
  "qop_of (OnOpen response) = (if ok response then [] else [Fail (onopen_error response)])"
| "qop_of (OnMessage msg) = [Push msg]"
| "qop_of (OnError error) = [Fail error]"
| "qop_of OnClose = [Close]"
| "qop_of Returned = [Close]"
| "qop_of (Failed err) = [Fail err, Close]"
| "qop_of (SessionPull p) = [Pull p]"


subsection \<open>Concrete inputs\<close>

definition example_config :: RequestConfig where
  "example_config = \<lparr>url = ''/events'', cfg_method = GET, timeout = None\<rparr>"

definition post_config :: RequestConfig where
  "post_config = \<lparr>url = ''/events'', cfg_method = POST, timeout = None\<rparr>"

definition default_options :: RetryMiddlewareOptions where
  "default_options =
     \<lparr>opt_maxRetries = None, opt_backoff = None, opt_baseDelay = None, opt_maxDelay = None,
      opt_retryableStatusCodes = None, opt_shouldRetry = None, opt_onRetry = None\<rparr>"

definition no_jitter :: "nat \<Rightarrow> real" where
  "no_jitter attempt = 0"

text \<open>
  A transport that counts its calls: the first two fail with the given status, the third
  and every later one succeeds.
\<close>

definition fails_twice :: "nat \<Rightarrow> string \<Rightarrow> RequestConfig \<Rightarrow> nat \<Rightarrow> (js_value + string) \<times> nat" where
  "fails_twice st stText config n =
     (if n < 2 then (Inl (ReqErr (createHttpError st stText (Some config))), n + 1)
      else (Inr ''success'', n + 1))"

text \<open>A transport that fails with the given status on every call.\<close>

definition always_fails :: "nat \<Rightarrow> string \<Rightarrow> RequestConfig \<Rightarrow> nat \<Rightarrow> (js_value + string) \<times> nat" where
  "always_fails st stText config n = (Inl (ReqErr (createHttpError st stText (Some config))), n + 1)"

text \<open>A chain that fails with a network error and leaves the context alone.\<close>

definition failing_chain :: "string HttpContext \<Rightarrow> js_value option \<times> string HttpContext" where
  "failing_chain ctx = (Some (ReqErr (NetworkError ''Failed to fetch'' None None)), ctx)"

definition empty_context :: "string HttpContext" where
  "empty_context =
     \<lparr>ctx_request = example_config, ctx_response = None, ctx_error = None,
      ctx_state = Map.empty\<rparr>"



definition response_200 :: Response where
  "response_200 = \<lparr>res_status = 200, res_statusText = ''OK'', res_text = None\<rparr>"

definition response_404 :: Response where
  "response_404 = \<lparr>res_status = 404, res_statusText = ''Not Found'', res_text = Some []\<rparr>"



section \<open>Error normalisation\<close>

lemmas str_defs = toLowerCase_def toLowerChar_def lower_table_def

text \<open>
  Claim C4, as stated, puts the timeout keyword before every network test. A \<open>TypeError\<close>
  whose message is \<open>network timeout\<close> contains both keywords, and \<open>normalizeError\<close>
  gives it the network kind: the \<open>TypeError\<close> branch comes before the keyword tests.
\<close>

theorem normalizeError_type_error_counterexample:
  "str_includes (toLowerCase ''network timeout'') ''timeout'' \<and>
   str_includes (toLowerCase ''network timeout'') ''network'' \<and>
   e_type (normalizeError
     (ErrObj \<lparr>cls = TypeErrorC, ename = ''TypeError'', emessage = ''network timeout''\<rparr>) None)
     = NETWORK"
  by (simp add: normalizeError_def NetworkError_def newRequestError_def str_defs)

text \<open>
  Claim C4, amended. \<open>normalizeError\<close> is a function, so every raw failure gets exactly one
  kind, and that kind is the one of the first condition that holds in this order: already
  typed (returned unchanged), abort-signal exception, \<open>TypeError\<close> with \<open>fetch\<close> or
  \<open>network\<close> in its message (network kind), timeout keyword, abort name or keyword,
  network keyword, and unknown otherwise; a value that is not an error object is unknown.
  In particular an error object that is neither an abort-signal exception nor such a
  \<open>TypeError\<close>, and whose message has a timeout keyword and a network keyword, gets the
  timeout kind.
\<close>

theorem normalizeError_priority:
  "e_type (normalizeError error config) = taxonomy_kind error \<and>
   normalizeError (ReqErr e) config = e \<and>
   (\<not> is_abort_signal_exception x \<and> \<not> is_network_type_error x \<and>
    has_timeout_keyword x \<and> has_network_keyword x
      \<longrightarrow> e_type (normalizeError (ErrObj x) config) = TIMEOUT)"
proof -
  have kinds: "e_type (NetworkError m c k) = NETWORK" "e_type (TimeoutError m t c) = TIMEOUT"
    "e_type (AbortError m c) = ABORTED" "e_type (newRequestError m ty st stt c k) = ty"
    for m c k t ty st stt
    by (simp_all add: NetworkError_def TimeoutError_def AbortError_def newRequestError_def)
  have obj: "e_type (normalizeError (ErrObj y) config) = first_match priority_order y" for y
    by (simp add: normalizeError_def priority_order_def kinds is_abort_signal_exception_def
        is_network_type_error_def has_timeout_keyword_def has_abort_keyword_def
        has_network_keyword_def)
  have "e_type (normalizeError error config) = taxonomy_kind error"
  proof (cases error)
    case (ErrObj y)
    then show ?thesis using obj by (simp add: taxonomy_kind_def)
  qed (simp_all add: normalizeError_def taxonomy_kind_def kinds)
  moreover have "normalizeError (ReqErr e) config = e"
    by (simp add: normalizeError_def)
  moreover have "\<not> is_abort_signal_exception x \<and> \<not> is_network_type_error x \<and>
    has_timeout_keyword x \<and> has_network_keyword x
      \<longrightarrow> e_type (normalizeError (ErrObj x) config) = TIMEOUT"
    using obj by (simp add: priority_order_def)
  ultimately show ?thesis by blast
qed

theorem normalizeError_priority_witness:
  "has_timeout_keyword \<lparr>cls = ErrorC, ename = ''Error'', emessage = ''Network Timeout''\<rparr> \<and>
   has_network_keyword \<lparr>cls = ErrorC, ename = ''Error'', emessage = ''Network Timeout''\<rparr> \<and>
   e_type (normalizeError
     (ErrObj \<lparr>cls = ErrorC, ename = ''Error'', emessage = ''Network Timeout''\<rparr>) None) = TIMEOUT"
  using normalizeError_priority
    [of "ErrObj \<lparr>cls = ErrorC, ename = ''Error'', emessage = ''Network Timeout''\<rparr>" None
        undefined "\<lparr>cls = ErrorC, ename = ''Error'', emessage = ''Network Timeout''\<rparr>",
        THEN conjunct2, THEN conjunct2]
  by (simp add: is_abort_signal_exception_def is_network_type_error_def has_timeout_keyword_def
      has_network_keyword_def str_defs)

section \<open>Backoff\<close>

text \<open>
  Claim C6. For every attempt: under exponential backoff the delay is
  \<open>baseDelay * 2 ^ attempt\<close> plus a jitter, the random value times 25 percent of that
  value, clamped by \<open>maxDelay\<close>; under linear backoff it is the minimum of
  \<open>baseDelay * (attempt + 1)\<close> and \<open>maxDelay\<close>, without jitter. Both never exceed
  \<open>maxDelay\<close>. For a random value in the unit interval and a base delay that is not
  negative the jitter lies between 0 and 25 percent of \<open>baseDelay * 2 ^ attempt\<close>, and
  for a \<open>maxDelay\<close> that is not negative the exponential delay never exceeds
  \<open>maxDelay * 1.25\<close>.
\<close>

theorem calculateDelay_bounds:
  "calculateDelay attempt exponential baseDelay maxDelay rnd
     = min (baseDelay * 2 ^ attempt + rnd * 0.25 * (baseDelay * 2 ^ attempt)) maxDelay \<and>
   calculateDelay attempt exponential baseDelay maxDelay rnd \<le> maxDelay \<and>
   calculateDelay attempt linear baseDelay maxDelay rnd
     = min (baseDelay * (real attempt + 1)) maxDelay \<and>
   calculateDelay attempt linear baseDelay maxDelay rnd \<le> maxDelay \<and>
   (0 \<le> rnd \<and> rnd < 1 \<and> 0 \<le> baseDelay \<longrightarrow>
      0 \<le> rnd * 0.25 * (baseDelay * 2 ^ attempt) \<and>
      rnd * 0.25 * (baseDelay * 2 ^ attempt) \<le> 0.25 * (baseDelay * 2 ^ attempt)) \<and>
   (0 \<le> maxDelay \<longrightarrow>
      calculateDelay attempt exponential baseDelay maxDelay rnd \<le> maxDelay * 1.25)"
proof -
  let ?d = "baseDelay * 2 ^ attempt"
  have e1: "calculateDelay attempt exponential baseDelay maxDelay rnd
           = min (?d + rnd * 0.25 * ?d) maxDelay"
    by (simp add: calculateDelay_def Let_def algebra_simps)
  have e2: "calculateDelay attempt exponential baseDelay maxDelay rnd \<le> maxDelay"
    unfolding e1 by simp
  have l1: "calculateDelay attempt linear baseDelay maxDelay rnd
           = min (baseDelay * (real attempt + 1)) maxDelay"
    by (simp add: calculateDelay_def)
  have l2: "calculateDelay attempt linear baseDelay maxDelay rnd \<le> maxDelay"
    unfolding l1 by simp
  have j: "0 \<le> rnd * 0.25 * ?d \<and> rnd * 0.25 * ?d \<le> 0.25 * ?d"
    if "0 \<le> rnd" and "rnd < 1" and "0 \<le> baseDelay"
  proof -
    have d0: "0 \<le> ?d" using that(3) by simp
    have "rnd * ?d \<le> 1 * ?d" using that(2) d0 by (intro mult_right_mono) simp_all
    then show ?thesis using that(1) d0 by simp
  qed
  have b: "calculateDelay attempt exponential baseDelay maxDelay rnd \<le> maxDelay * 1.25"
    if "0 \<le> maxDelay"
    using e2 that by simp
  show ?thesis using e1 e2 l1 l2 j b by blast
qed

theorem calculateDelay_bounds_witness:
  "calculateDelay 3 exponential 1000 2000 (1/2) = 2000 \<and>
   calculateDelay 3 exponential 1000 2000 (1/2) \<le> 2000 * 1.25 \<and>
   calculateDelay 0 exponential 1000 2000 (1/2) = 1125 \<and>
   (0::real) \<le> 1/2 * 0.25 * (1000 * 2 ^ 0) \<and>
   calculateDelay 1 linear 1000 30000 (1/2) = 2000"
  using calculateDelay_bounds [of 3 1000 2000 "1/2"] calculateDelay_bounds [of 0 1000 2000 "1/2"]
    calculateDelay_bounds [of 1 1000 30000 "1/2"]
  by simp

section \<open>The retrying adapter\<close>

lemma retry_defaults:
  "maxRetries_of default_options = 3" "retryableStatusCodes_of default_options = [408, 429, 500, 502, 503, 504]"
  "opt_shouldRetry default_options = None" "call_onRetry default_options e n = None"
  by (simp_all add: default_options_def maxRetries_of_def retryableStatusCodes_of_def
      DEFAULT_RETRYABLE_STATUS_CODES_def call_onRetry_def)

lemma http_error_fields:
  "e_type (createHttpError st txt c) = HTTP" "e_status (createHttpError st txt c) = Some st"
  by (simp_all add: createHttpError_def HttpError_def newRequestError_def)

lemma checkShouldRetry_http:
  assumes "e_type e = HTTP" and "e_status e = Some st" and "st \<noteq> 0"
  shows "checkShouldRetry (ReqErr e) attempt codes None = (st \<in> set codes)"
  using assms by (simp add: checkShouldRetry_def isAbortedError_def isHttpError_def status_truthy_def)


lemma attempt_loop_success:
  assumes "adapter config s = (Inr response, s')" and "int attempt \<le> maxRetries_of opts"
  shows "attempt_loop adapter opts rnd config attempt lastError s tr
           = (Inr response, s', tr\<lparr>calls := calls tr + 1\<rparr>)"
  by (rule trans [OF attempt_loop.simps]) (simp add: assms)

lemma attempt_loop_give_up:
  assumes "adapter config s = (Inl error, s')" and "int attempt \<le> maxRetries_of opts"
    and "int attempt = maxRetries_of opts \<or>
         \<not> checkShouldRetry error attempt (retryableStatusCodes_of opts) (opt_shouldRetry opts)"
  shows "attempt_loop adapter opts rnd config attempt lastError s tr
           = (Inl error, s', tr\<lparr>calls := calls tr + 1\<rparr>)"
  using assms(3) by (subst attempt_loop.simps) (auto simp add: assms(1,2))

lemma attempt_loop_retry:
  assumes "adapter config s = (Inl error, s')" and "int attempt < maxRetries_of opts"
    and "checkShouldRetry error attempt (retryableStatusCodes_of opts) (opt_shouldRetry opts)"
    and "call_onRetry opts error (Suc attempt) = None"
  shows "attempt_loop adapter opts rnd config attempt lastError s tr
           = attempt_loop adapter opts rnd config (Suc attempt) error s'
               (tr\<lparr>calls := calls tr + 1,
                   sleeps := sleeps tr @
                     [calculateDelay attempt (backoff_of opts) (baseDelay_of opts)
                        (maxDelay_of opts) (rnd attempt)],
                   notified := notified tr @
                     (case opt_onRetry opts of None \<Rightarrow> [] | Some f \<Rightarrow> [(error, Suc attempt)])\<rparr>)"
  by (rule trans [OF attempt_loop.simps]) (use assms in \<open>simp cong: option.case_cong\<close>)

text \<open>
  Claim C1, as stated, speaks of every error of the 500 class. Status 501 is in that class
  and not in the default set of retryable statuses: a transport that fails twice with 501
  and would succeed on its third call is called once, and the adapter rejects with the
  first error.
\<close>

theorem retry_501_counterexample:
  "fst (fails_twice 501 ''Not Implemented'' example_config 0)
     = Inl (ReqErr (createHttpError 501 ''Not Implemented'' (Some example_config))) \<and>
   fst (fails_twice 501 ''Not Implemented'' example_config 1)
     = Inl (ReqErr (createHttpError 501 ''Not Implemented'' (Some example_config))) \<and>
   fst (fails_twice 501 ''Not Implemented'' example_config 2) = Inr ''success'' \<and>
   e_type (createHttpError 501 ''Not Implemented'' (Some example_config)) = HTTP \<and>
   e_status (createHttpError 501 ''Not Implemented'' (Some example_config)) = Some 501 \<and>
   createRetryAdapter (fails_twice 501 ''Not Implemented'')
       (default_options\<lparr>opt_maxRetries := Some 3\<rparr>) no_jitter example_config 0
     = (Inl (ReqErr (createHttpError 501 ''Not Implemented'' (Some example_config))), 1,
        no_trace\<lparr>calls := 1\<rparr>)"
proof -
  have c: "\<not> checkShouldRetry (ReqErr (createHttpError 501 ''Not Implemented'' (Some example_config)))
             0 (retryableStatusCodes_of (default_options\<lparr>opt_maxRetries := Some 3\<rparr>))
             (opt_shouldRetry (default_options\<lparr>opt_maxRetries := Some 3\<rparr>))"
    by (simp add: checkShouldRetry_http [OF http_error_fields] default_options_def
        retryableStatusCodes_of_def DEFAULT_RETRYABLE_STATUS_CODES_def)
  have m: "maxRetries_of (default_options\<lparr>opt_maxRetries := Some 3\<rparr>) = 3"
    by (simp add: maxRetries_of_def)
  have "createRetryAdapter (fails_twice 501 ''Not Implemented'')
       (default_options\<lparr>opt_maxRetries := Some 3\<rparr>) no_jitter example_config 0
     = (Inl (ReqErr (createHttpError 501 ''Not Implemented'' (Some example_config))), 1,
        no_trace\<lparr>calls := 1\<rparr>)"
    unfolding createRetryAdapter_def
    by (subst attempt_loop_give_up [where s' = 1 and
          error = "ReqErr (createHttpError 501 ''Not Implemented'' (Some example_config))"])
       (use c in \<open>simp_all add: m fails_twice_def no_trace_def\<close>)
  then show ?thesis
    by (simp add: fails_twice_def http_error_fields)
qed

text \<open>
  Claim C1, amended. If the first two calls of the transport fail with HTTP errors whose
  statuses are in the set of retryable statuses, and the third call succeeds, then the
  adapter, without a custom predicate, with an observer that does not throw and with
  \<open>maxRetries\<close> at least 2 (3 in the claim), calls the transport exactly 3 times, sleeps
  the two computed delays and resolves with the response of the third call.
\<close>

theorem retry_twice_then_success:
  assumes first: "adapter config s0 = (Inl (ReqErr e1), s1)"
      and second: "adapter config s1 = (Inl (ReqErr e2), s2)"
      and third: "adapter config s2 = (Inr response, s3)"
      and e1: "e_type e1 = HTTP" "e_status e1 = Some st1" "st1 \<noteq> 0"
              "st1 \<in> set (retryableStatusCodes_of opts)"
      and e2: "e_type e2 = HTTP" "e_status e2 = Some st2" "st2 \<noteq> 0"
              "st2 \<in> set (retryableStatusCodes_of opts)"
      and custom: "opt_shouldRetry opts = None"
      and quiet: "call_onRetry opts (ReqErr e1) 1 = None" "call_onRetry opts (ReqErr e2) 2 = None"
      and budget: "2 \<le> maxRetries_of opts"
  shows "fst (createRetryAdapter adapter opts rnd config s0) = Inr response \<and>
         fst (snd (createRetryAdapter adapter opts rnd config s0)) = s3 \<and>
         calls (snd (snd (createRetryAdapter adapter opts rnd config s0))) = 3 \<and>
         sleeps (snd (snd (createRetryAdapter adapter opts rnd config s0)))
           = [calculateDelay 0 (backoff_of opts) (baseDelay_of opts) (maxDelay_of opts) (rnd 0),
              calculateDelay 1 (backoff_of opts) (baseDelay_of opts) (maxDelay_of opts) (rnd 1)]"
proof -
  have r1: "checkShouldRetry (ReqErr e1) 0 (retryableStatusCodes_of opts) (opt_shouldRetry opts)"
    using e1 custom by (simp add: checkShouldRetry_http)
  have r2: "checkShouldRetry (ReqErr e2) (Suc 0) (retryableStatusCodes_of opts) (opt_shouldRetry opts)"
    using e2 custom by (simp add: checkShouldRetry_http)
  have q2: "call_onRetry opts (ReqErr e2) (Suc (Suc 0)) = None"
    using quiet(2) by (simp add: numeral_2_eq_2)
  have step1: "attempt_loop adapter opts rnd config 0 JUndefined s0 no_trace
      = attempt_loop adapter opts rnd config (Suc 0) (ReqErr e1) s1 tr1"
    if "tr1 = no_trace\<lparr>calls := calls no_trace + 1,
                   sleeps := sleeps no_trace @
                     [calculateDelay 0 (backoff_of opts) (baseDelay_of opts)
                        (maxDelay_of opts) (rnd 0)],
                   notified := notified no_trace @
                     (case opt_onRetry opts of None \<Rightarrow> [] | Some f \<Rightarrow> [(ReqErr e1, Suc 0)])\<rparr>" for tr1
    unfolding that
    by (rule attempt_loop_retry) (use first budget r1 quiet in simp_all)
  have step2: "attempt_loop adapter opts rnd config (Suc 0) (ReqErr e1) s1 tr1
      = attempt_loop adapter opts rnd config (Suc (Suc 0)) (ReqErr e2) s2
          (tr1\<lparr>calls := calls tr1 + 1,
                   sleeps := sleeps tr1 @
                     [calculateDelay (Suc 0) (backoff_of opts) (baseDelay_of opts)
                        (maxDelay_of opts) (rnd (Suc 0))],
                   notified := notified tr1 @
                     (case opt_onRetry opts of None \<Rightarrow> [] | Some f \<Rightarrow> [(ReqErr e2, Suc (Suc 0))])\<rparr>)" for tr1
    by (rule attempt_loop_retry) (use second budget r2 q2 in simp_all)
  have step3: "attempt_loop adapter opts rnd config (Suc (Suc 0)) (ReqErr e2) s2 tr2
      = (Inr response, s3, tr2\<lparr>calls := calls tr2 + 1\<rparr>)" for tr2
    by (rule attempt_loop_success) (use third budget in simp_all)
  show ?thesis
    unfolding createRetryAdapter_def step1 [OF refl] step2 step3
    by (simp add: no_trace_def)
qed

theorem retry_twice_then_success_witness:
  "fst (createRetryAdapter (fails_twice 500 ''Internal Server Error'')
          (default_options\<lparr>opt_maxRetries := Some 3\<rparr>) no_jitter example_config 0)
     = Inr ''success'' \<and>
   calls (snd (snd (createRetryAdapter (fails_twice 500 ''Internal Server Error'')
          (default_options\<lparr>opt_maxRetries := Some 3\<rparr>) no_jitter example_config 0))) = 3"
  using retry_twice_then_success
    [of "fails_twice 500 ''Internal Server Error''" example_config 0
        "createHttpError 500 ''Internal Server Error'' (Some example_config)" 1
        "createHttpError 500 ''Internal Server Error'' (Some example_config)" 2
        "''success''" 3 500 "default_options\<lparr>opt_maxRetries := Some 3\<rparr>" 500 no_jitter]
  by (simp add: fails_twice_def http_error_fields default_options_def retryableStatusCodes_of_def
      DEFAULT_RETRYABLE_STATUS_CODES_def call_onRetry_def maxRetries_of_def)

text \<open>
  Claim C3. If the call of the transport fails with an HTTP error of status 404, then for
  every \<open>maxRetries\<close> of at least 1, without a custom predicate and with the default set of
  retryable statuses, the adapter calls the transport exactly once, sleeps no delay and
  rejects with that same error.
\<close>

theorem no_retry_on_404:
  assumes fails: "adapter config s = (Inl (ReqErr e), s')"
      and http: "e_type e = HTTP" "e_status e = Some 404"
      and budget: "1 \<le> maxRetries_of opts"
      and custom: "opt_shouldRetry opts = None"
      and codes: "opt_retryableStatusCodes opts = None"
  shows "createRetryAdapter adapter opts rnd config s
           = (Inl (ReqErr e), s', no_trace\<lparr>calls := 1\<rparr>)"
proof -
  have "\<not> checkShouldRetry (ReqErr e) 0 (retryableStatusCodes_of opts) (opt_shouldRetry opts)"
    using http custom codes
    by (simp add: checkShouldRetry_http retryableStatusCodes_of_def DEFAULT_RETRYABLE_STATUS_CODES_def)
  then show ?thesis
    unfolding createRetryAdapter_def
    by (subst attempt_loop.simps) (use fails budget in \<open>simp add: no_trace_def\<close>)
qed

theorem no_retry_on_404_witness:
  "createRetryAdapter (always_fails 404 ''Not Found'') (default_options\<lparr>opt_maxRetries := Some 5\<rparr>)
       no_jitter example_config 0
     = (Inl (ReqErr (createHttpError 404 ''Not Found'' (Some example_config))), 1,
        no_trace\<lparr>calls := 1\<rparr>)"
  using no_retry_on_404
    [of "always_fails 404 ''Not Found''" example_config 0
        "createHttpError 404 ''Not Found'' (Some example_config)" 1
        "default_options\<lparr>opt_maxRetries := Some 5\<rparr>" no_jitter]
  by (simp add: always_fails_def http_error_fields default_options_def maxRetries_of_def)

section \<open>The retry middleware\<close>

text \<open>
  Claim C9. The middleware of retry.ts writes \<open>retryConfig\<close> into the shared state and
  then invokes \<open>next\<close> exactly once, on the context that carries it, whatever the chain
  does. If the chain fails and the observer does not throw, the middleware throws that
  first failure again; on the way, when the failure counts as retryable and \<open>maxRetries\<close>
  is positive, it records \<open>retryAttempt\<close> 1 and \<open>retryDelay\<close>, clears response and
  error, and sleeps the delay once. It never runs the chain a second time.
\<close>

theorem retry_middleware_single_attempt:
  "let ctx1 = ctx\<lparr>ctx_state := (ctx_state ctx)(''retryConfig'' \<mapsto>
                SRetryConfig (maxRetries_of opts) (backoff_of opts) (baseDelay_of opts)
                  (maxDelay_of opts) (retryableStatusCodes_of opts))\<rparr>;
       delay = calculateDelay 0 (backoff_of opts) (baseDelay_of opts) (maxDelay_of opts) (rnd 0);
       result = createRetryMiddleware opts rnd next ctx
   in fst (snd (snd result)) = [ctx1] \<and>
      (fst (next ctx1) = None \<longrightarrow> fst result = None \<and> fst (snd result) = snd (next ctx1)) \<and>
      (fst (next ctx1) = Some error \<and> call_onRetry opts error 1 = None \<longrightarrow>
         fst result = Some error \<and>
         (0 < maxRetries_of opts \<and>
          checkShouldRetry error 0 (retryableStatusCodes_of opts) (opt_shouldRetry opts) \<longrightarrow>
            ctx_state (fst (snd result)) ''retryAttempt'' = Some (SNum 1) \<and>
            ctx_state (fst (snd result)) ''retryDelay'' = Some (SNum delay) \<and>
            ctx_response (fst (snd result)) = None \<and>
            ctx_error (fst (snd result)) = None \<and>
            snd (snd (snd result)) = [delay]))"
  by (cases "next (ctx\<lparr>ctx_state := (ctx_state ctx)(''retryConfig'' \<mapsto>
                SRetryConfig (maxRetries_of opts) (backoff_of opts) (baseDelay_of opts)
                  (maxDelay_of opts) (retryableStatusCodes_of opts))\<rparr>)")
     (auto simp add: createRetryMiddleware_def Let_def split: option.splits)

theorem retry_middleware_single_attempt_witness:
  "fst (createRetryMiddleware default_options no_jitter failing_chain empty_context)
     = Some (ReqErr (NetworkError ''Failed to fetch'' None None)) \<and>
   length (fst (snd (snd (createRetryMiddleware default_options no_jitter failing_chain
                            empty_context)))) = 1 \<and>
   ctx_state (fst (snd (createRetryMiddleware default_options no_jitter failing_chain
                            empty_context))) ''retryAttempt'' = Some (SNum 1) \<and>
   ctx_state (fst (snd (createRetryMiddleware default_options no_jitter failing_chain
                            empty_context))) ''retryDelay'' = Some (SNum 1000) \<and>
   ctx_state (fst (snd (createRetryMiddleware default_options no_jitter failing_chain
                            empty_context))) ''retryConfig''
     = Some (SRetryConfig 3 exponential 1000 30000 [408, 429, 500, 502, 503, 504])"
  using retry_middleware_single_attempt
    [of empty_context default_options no_jitter failing_chain
        "ReqErr (NetworkError ''Failed to fetch'' None None)"]
  by (simp add: createRetryMiddleware_def Let_def failing_chain_def empty_context_def default_options_def
      maxRetries_of_def backoff_of_def baseDelay_of_def maxDelay_of_def
      retryableStatusCodes_of_def DEFAULT_RETRYABLE_STATUS_CODES_def call_onRetry_def
      checkShouldRetry_def isAbortedError_def isHttpError_def isRetryable_def
      NetworkError_def newRequestError_def calculateDelay_def no_jitter_def)

text \<open>
  The middleware of retryMiddleware.ts is a different function: with \<open>retries\<close> 2 and a
  chain that always fails it invokes \<open>next\<close> three times.
\<close>

lemma engine_retry_middleware_invokes_next_again:
  "length (fst (snd (snd (createRetryMiddleware2 \<lparr>ro_retries = Some 2, ro_delay = Some 0\<rparr>
                            failing_chain empty_context)))) = 3 \<and>
   fst (createRetryMiddleware2 \<lparr>ro_retries = Some 2, ro_delay = Some 0\<rparr> failing_chain empty_context)
     = Some (ReqErr (NetworkError ''Failed to fetch'' None None))"
  by (simp add: createRetryMiddleware2_def createRetryMiddleware2_loop.simps retries_of_def
      delay_of_def failing_chain_def)

section \<open>The queue of the streaming bridge\<close>

lemmas queue_ops = queue_next_def queue_push_def queue_close_def queue_fail_def settleDone_def

lemma queue_run_Cons:
  "queue_run q (x # xs) =
     (fst (queue_step x q) @ fst (queue_run (snd (queue_step x q)) xs),
      snd (queue_run (snd (queue_step x q)) xs))"
  by (simp split: prod.splits)

lemma queue_run_append:
  "queue_run q (xs @ ys) =
     (fst (queue_run q xs) @ fst (queue_run (snd (queue_run q xs)) ys),
      snd (queue_run (snd (queue_run q xs)) ys))"
proof (induction xs arbitrary: q)
  case Nil
  then show ?case by simp
next
  case (Cons x xs)
  show ?case
    unfolding append_Cons queue_run_Cons [of q x] Cons.IH by simp
qed

lemma terminal_step:
  assumes "isClosed q \<or> truthy (failure q)"
  shows "isClosed (snd (queue_step x q)) \<or> truthy (failure (snd (queue_step x q)))"
  using assms by (cases x) (auto simp add: queue_ops split: list.splits option.splits)

lemma terminal_run:
  assumes "isClosed q \<or> truthy (failure q)"
  shows "isClosed (snd (queue_run q xs)) \<or> truthy (failure (snd (queue_run q xs)))"
  using assms
proof (induction xs arbitrary: q)
  case Nil
  then show ?case by simp
next
  case (Cons x xs)
  from Cons.IH [OF terminal_step [OF Cons.prems, of x]]
  show ?case unfolding queue_run_Cons [of q x] by simp
qed

lemma push_terminal:
  assumes "isClosed q \<or> truthy (failure q)"
  shows "queue_push v q = ([], q)"
  using assms by (auto simp add: queue_push_def)

lemma push_skipped:
  assumes "isClosed q \<or> truthy (failure q)"
  shows "queue_run q (xs @ Push v # ys) = queue_run q (xs @ ys)"
proof -
  have "queue_push v (snd (queue_run q xs)) = ([], snd (queue_run q xs))"
    by (rule push_terminal) (rule terminal_run [OF assms])
  then have "queue_run (snd (queue_run q xs)) (Push v # ys) = queue_run (snd (queue_run q xs)) ys"
    unfolding queue_run_Cons by simp
  then show ?thesis
    unfolding queue_run_append [of q xs] by simp
qed

lemma close_terminal: "isClosed (snd (queue_close q))"
  by (auto simp add: queue_ops split: option.splits)

lemma fail_terminal:
  assumes "truthy err"
  shows "isClosed (snd (queue_fail err q)) \<or> truthy (failure (snd (queue_fail err q)))"
  using assms by (auto simp add: queue_ops split: option.splits)

lemma push_skipped_after:
  assumes "isClosed (snd (queue_step t (snd (queue_run q0 pre)))) \<or>
           truthy (failure (snd (queue_step t (snd (queue_run q0 pre)))))"
  shows "queue_run q0 (pre @ t # xs @ Push v # ys) = queue_run q0 (pre @ t # xs @ ys)"
  unfolding queue_run_append [of q0 pre] queue_run_Cons [of _ t] push_skipped [OF assms]
  by (rule refl)

text \<open>
  In a queue that is closed or holds a failure it recognises, \<open>push\<close> settles nothing
  and returns the queue as it was, so the rest of any run is the same with or without the
  push. In terms of events, from any state: a message pushed at any time after \<open>close()\<close>,
  or after \<open>fail(err)\<close> with a truthy \<open>err\<close>, leaves both the settled pulls and the
  final queue of the run unchanged.
\<close>

lemma push_after_terminal_discarded:
  "(isClosed q \<or> truthy (failure q) \<longrightarrow>
      queue_push v q = ([], q) \<and> queue_run q (xs @ Push v # ys) = queue_run q (xs @ ys)) \<and>
   queue_run q0 (pre @ Close # xs @ Push v # ys) = queue_run q0 (pre @ Close # xs @ ys) \<and>
   (truthy err \<longrightarrow>
      queue_run q0 (pre @ Fail err # xs @ Push v # ys) = queue_run q0 (pre @ Fail err # xs @ ys))"
proof -
  have "queue_run q0 (pre @ Close # xs @ Push v # ys) = queue_run q0 (pre @ Close # xs @ ys)"
    by (rule push_skipped_after) (simp add: close_terminal)
  moreover have "queue_run q0 (pre @ Fail err # xs @ Push v # ys)
      = queue_run q0 (pre @ Fail err # xs @ ys)" if "truthy err"
    by (rule push_skipped_after) (simp add: fail_terminal [OF that])
  ultimately show ?thesis
    using push_terminal [of q v] push_skipped [of q xs v ys] by blast
qed

lemma push_after_close_example:
  "queue_run (createAsyncQueue :: string AsyncQueue) [Push ''a'', Close, Push ''late'', Pull 0, Pull 1]
     = queue_run createAsyncQueue [Push ''a'', Close, Pull 0, Pull 1] \<and>
   fst (queue_run (createAsyncQueue :: string AsyncQueue) [Push ''a'', Close, Push ''late'', Pull 0, Pull 1])
     = [(0, Resolved (Value ''a'')), (1, Resolved Done)] \<and>
   fst (queue_run (createAsyncQueue :: string AsyncQueue)
          [Fail (JStr ''boom''), Push ''late'', Pull 0])
     = [(0, Rejected (JStr ''boom''))]"
  using push_after_terminal_discarded
    [where q = "snd (queue_run (createAsyncQueue :: string AsyncQueue) [Push ''a'', Close])"
       and v = "''late''" and xs = "[]" and ys = "[Pull 0, Pull 1]" and ?q0.0 = createAsyncQueue
       and pre = "[Push ''a'']" and err = "JStr ''boom''"]
  by (simp add: createAsyncQueue_def queue_ops)


text \<open>
  Claim C5 says that a failure is sticky for every \<open>err\<close>. The queue tests its stored
  failure by truthiness, so a failure value that is falsy is not recorded as one: after
  \<open>fail(undefined)\<close> a pull is not rejected but left waiting; a later \<open>close()\<close> then
  completes the stream normally; and after \<open>fail('')\<close> a pushed message is still
  delivered.
\<close>

theorem falsy_failure_not_sticky:
  "fst (queue_run (createAsyncQueue :: string AsyncQueue) [Fail JUndefined, Pull 0]) = [] \<and>
   resolveNext (snd (queue_run (createAsyncQueue :: string AsyncQueue) [Fail JUndefined, Pull 0]))
     = Some 0 \<and>
   fst (queue_run (createAsyncQueue :: string AsyncQueue) [Fail JUndefined, Close, Pull 0])
     = [(0, Resolved Done)] \<and>
   fst (queue_run (createAsyncQueue :: string AsyncQueue) [Fail (JStr []), Push ''m'', Pull 0])
     = [(0, Resolved (Value ''m''))]"
  by (simp add: createAsyncQueue_def queue_ops)

text \<open>
  For a truthy \<open>err\<close> the behaviour that claim C5 describes holds: once the failure is
  stored, every pull of every later run is rejected with it and nothing else is settled;
  \<open>fail\<close> as the first terminal transition of an open queue rejects the waiting pull
  and every later one with \<open>err\<close>; a later \<open>close()\<close> changes no pull result; and
  \<open>fail\<close> after \<open>close()\<close> does nothing.
\<close>

lemma failed_run:
  assumes "truthy (failure q)" and "resolveNext q = None"
  shows "fst (queue_run q xs) = map (\<lambda>p. (p, Rejected (failure q))) (pulls xs) \<and>
         failure (snd (queue_run q xs)) = failure q \<and>
         resolveNext (snd (queue_run q xs)) = None"
  using assms
proof (induction xs arbitrary: q)
  case Nil
  then show ?case by simp
next
  case (Cons x xs)
  have s: "fst (queue_step x q) = (if is_pull x then [(the_pull, Rejected (failure q))] else [])
             \<and> failure (snd (queue_step x q)) = failure q
             \<and> resolveNext (snd (queue_step x q)) = None"
    if "the_pull = (case x of Pull p \<Rightarrow> p | _ \<Rightarrow> 0)" for the_pull
    using Cons.prems that by (cases x) (auto simp add: queue_ops)
  from s [OF refl] Cons.IH [of "snd (queue_step x q)"] Cons.prems
  show ?case by (cases x) (auto split: prod.splits)
qed

lemma truthy_failure_sticky:
  assumes "truthy err" and "open_queue q"
  shows "fst (queue_run q (Fail err # xs))
           = map (\<lambda>p. (p, Rejected err)) (pending q @ pulls xs)"
proof -
  have f: "failure (snd (queue_fail err q)) = err" "resolveNext (snd (queue_fail err q)) = None"
    "fst (queue_fail err q) = map (\<lambda>p. (p, Rejected err)) (pending q)"
    using assms(2) by (auto simp add: queue_ops open_queue_def pending_def split: option.splits)
  with failed_run [of "snd (queue_fail err q)" xs] assms(1)
  show ?thesis by (auto split: prod.splits)
qed

lemma fail_after_close_noop:
  assumes "isClosed q"
  shows "queue_fail err q = ([], q)"
  using assms by (simp add: queue_fail_def)

lemma close_after_failure_unobservable:
  assumes "truthy (failure q)" and "resolveNext q = None"
  shows "fst (queue_run q (Close # xs)) = fst (queue_run q xs)"
proof -
  have c: "fst (queue_close q) = []" "failure (snd (queue_close q)) = failure q"
    "resolveNext (snd (queue_close q)) = None"
    using assms(2) by (auto simp add: queue_ops)
  from failed_run [of "snd (queue_close q)" xs] failed_run [OF assms, of xs] c assms(1)
  show ?thesis unfolding queue_run_Cons by simp
qed

section \<open>Order of delivery\<close>





section \<open>The event-source adapter\<close>

lemmas es_handlers = es_onopen_def es_onmessage_def es_onerror_def es_onclose_def es_returned_def
  es_failed_def es_finally_def

lemma es_step_queue:
  "fst (es_step c ev st) = fst (queue_run (queue st) (qop_of ev)) \<and>
   queue (snd (es_step c ev st)) = snd (queue_run (queue st) (qop_of ev))"
  by (cases ev) (auto simp add: es_handlers Let_def split: prod.splits)

lemma es_run_Cons:
  "es_run c st (ev # evs) =
     (fst (es_step c ev st) @ fst (es_run c (snd (es_step c ev st)) evs),
      snd (es_run c (snd (es_step c ev st)) evs))"
  by (simp split: prod.splits)

lemma es_run_queue:
  "fst (es_run c st evs) = fst (queue_run (queue st) (concat (map qop_of evs))) \<and>
   queue (snd (es_run c st evs)) = snd (queue_run (queue st) (concat (map qop_of evs)))"
proof (induction evs arbitrary: st)
  case Nil
  then show ?case by simp
next
  case (Cons ev evs)
  from Cons.IH [of "snd (es_step c ev st)"] es_step_queue [of c ev st]
  show ?case
    unfolding es_run_Cons by (simp add: queue_run_append)
qed

lemma pulls_append: "pulls (xs @ ys) = pulls xs @ pulls ys"
  by (induction xs rule: pulls.induct) simp_all

lemma pulls_qops: "pulls (concat (map qop_of evs)) = session_pulls evs"
proof (induction evs)
  case Nil
  then show ?case by simp
next
  case (Cons ev evs)
  then show ?case by (cases ev) (simp_all add: pulls_append)
qed


















text \<open>
  The error that \<open>onopen\<close> builds for a response that is not ok never normalises to the
  HTTP kind; it does fail the session for good, and rejects the outer promise.
\<close>

lemma onopen_error_kind: "e_type (normalizeError (onopen_error r) c) \<noteq> HTTP"
  by (simp add: normalizeError_def onopen_error_def TimeoutError_def AbortError_def
      NetworkError_def newRequestError_def)

lemma not_ok_open_observable:
  assumes "\<not> ok r" and "\<not> settled st" and "open_queue (queue st)"
  shows "outer (snd (es_step c (OnOpen r) st)) = ORejected (onopen_error r) \<and>
         fst (es_run c st (OnOpen r # evs))
           = map (\<lambda>p. (p, Rejected (onopen_error r))) (pending (queue st) @ session_pulls evs)"
proof -
  have t: "truthy (onopen_error r)" by (simp add: onopen_error_def)
  have "outer (snd (es_step c (OnOpen r) st)) = ORejected (onopen_error r)"
    using assms(1,2) by (simp add: es_onopen_def Let_def split: prod.splits)
  moreover have "concat (map qop_of (OnOpen r # evs)) = Fail (onopen_error r) # concat (map qop_of evs)"
    using assms(1) by simp
  ultimately show ?thesis
    using es_run_queue [of c st "OnOpen r # evs"] truthy_failure_sticky [OF t assms(3)]
    by (simp add: pulls_qops)
qed

text \<open>
  Claim C7 expects an error of the HTTP kind. For a response 404 Not Found the outer
  promise is rejected with a plain \<open>Error\<close>, which is not a \<open>RequestError\<close>, and the
  client's \<open>finalHandler\<close> normalises it to the unknown kind, without a status. The other
  half of the claim holds: the session is failed with the same error, and a pull on it is
  rejected.
\<close>

theorem open_404_rejects_with_untyped_error:
  "\<not> ok response_404 \<and>
   outer (snd (es_step example_config (OnOpen response_404) (es_request example_config)))
     = ORejected (ErrObj \<lparr>cls = ErrorC, ename = ''Error'',
                           emessage = ''HTTP Error: 404 Not Found''\<rparr>) \<and>
   fst (es_run example_config (es_request example_config) [OnOpen response_404, SessionPull 0])
     = [(0, Rejected (ErrObj \<lparr>cls = ErrorC, ename = ''Error'',
                                emessage = ''HTTP Error: 404 Not Found''\<rparr>))] \<and>
   isRequestError (onopen_error response_404) = False \<and>
   e_type (normalizeError (onopen_error response_404) (Some example_config)) = UNKNOWN \<and>
   fst (finalHandler (Inl (onopen_error response_404)) empty_context)
     = Some (ReqErr (newRequestError ''HTTP Error: 404 Not Found'' UNKNOWN None None
                       (Some example_config)
                       (Some \<lparr>cls = ErrorC, ename = ''Error'',
                              emessage = ''HTTP Error: 404 Not Found''\<rparr>)))"
  by (simp add: ok_def response_404_def es_request_def createAsyncQueue_def es_handlers
      queue_ops onopen_error_def isRequestError_def normalizeError_def finalHandler_def
      empty_context_def newRequestError_def str_defs Let_def)

text \<open>
  Claim C8, as stated, fails on the current adapter: a POST request builds a session,
  opens a connection with the method POST, and is resolved when the source reports a
  successful open.
\<close>

theorem post_accepted_by_current_adapter:
  "cfg_method post_config \<noteq> GET \<and>
   effects (es_request post_config) = [NewSession, Connect POST] \<and>
   outer (es_request post_config) = OPending \<and>
   outer (snd (es_step post_config (OnOpen response_200) (es_request post_config)))
     = OResolved \<lparr>rd_status = 200, rd_statusText = ''OK'', rd_config = post_config\<rparr>"
  by (simp add: post_config_def es_request_def es_onopen_def ok_def response_200_def)

text \<open>
  Claim C8, amended. For every request whose method is not GET: the older adapter rejects
  the call with an error of the unknown kind before it connects, and builds no session;
  the current adapter builds the session, connects with the method of the request, and
  resolves the call once the source reports a successful open.
\<close>

theorem non_get_rejected_by_older_adapter_only:
  assumes "cfg_method requestConfig \<noteq> GET"
  shows "legacy_request requestConfig
           = (ORejected (ReqErr (newRequestError ''EventSource adapter only supports GET requests''
                                   UNKNOWN None None (Some requestConfig) None)), []) \<and>
         effects (es_request requestConfig) = [NewSession, Connect (cfg_method requestConfig)] \<and>
         outer (es_request requestConfig) = OPending \<and>
         (ok response \<longrightarrow>
            outer (snd (es_step requestConfig (OnOpen response) (es_request requestConfig)))
              = OResolved \<lparr>rd_status = res_status response,
                             rd_statusText = res_statusText response,
                             rd_config = requestConfig\<rparr>)"
  using assms by (simp add: legacy_request_def es_request_def es_onopen_def)

theorem non_get_rejected_by_older_adapter_only_witness:
  "fst (legacy_request post_config)
     = ORejected (ReqErr (newRequestError ''EventSource adapter only supports GET requests''
                            UNKNOWN None None (Some post_config) None)) \<and>
   snd (legacy_request post_config) = [] \<and>
   effects (es_request post_config) = [NewSession, Connect POST]"
  using non_get_rejected_by_older_adapter_only [of post_config response_200]
  by (simp add: post_config_def)

end
